theory Spec2Isabelle
  imports Complex_Main "HOL-Library.Word"
begin

section \<open>Exceptions and arrays\<close>

text \<open>
  The exceptions that the functions of \<^verbatim>\<open>nevergrad/functions/images/core.py\<close> can raise.
  A raise is the \<open>Inl\<close> branch of a result; the strings are the messages, shortened.
  \<open>ConfigError\<close> and \<open>LoadError\<close> are the names the specification gives to the failures
  of collaborators that are not part of the module.
\<close>

datatype error =
    ValueError string
  | NameError string
  | IndexError string
  | RuntimeError string
  | AttributeError string
  | UnboundLocalError string
  | AssertionError
  | ConfigError
  | LoadError

text \<open>
  A numpy array or torch tensor: its shape and its elements in C order (row major).
  An array is well formed when the buffer holds exactly as many elements as the shape
  announces.
\<close>

record 'a ndarray =
  shape :: "nat list"
  buf :: "'a list"

type_synonym tensor = "real ndarray"

definition wf_array :: "'a ndarray \<Rightarrow> bool" where
  "wf_array a = (length (buf a) = prod_list (shape a))"

definition numel :: "'a ndarray \<Rightarrow> nat" where
  "numel a = length (buf a)"

definition full :: "nat list \<Rightarrow> 'a \<Rightarrow> 'a ndarray" where
  "full shp v = \<lparr>shape = shp, buf = replicate (prod_list shp) v\<rparr>"

definition zeros :: "nat list \<Rightarrow> real ndarray" where
  "zeros shp = full shp 0"

definition ones :: "nat list \<Rightarrow> real ndarray" where
  "ones shp = full shp 1"

definition scale :: "real \<Rightarrow> real ndarray \<Rightarrow> real ndarray" where
  "scale k a = \<lparr>shape = shape a, buf = map (\<lambda>v. k * v) (buf a)\<rparr>"

text \<open>\<^verbatim>\<open>a.ravel()\<close>: the same elements as a one-dimensional array.\<close>

definition ravel :: "'a ndarray \<Rightarrow> 'a ndarray" where
  "ravel a = \<lparr>shape = [length (buf a)], buf = buf a\<rparr>"

text \<open>
  \<^verbatim>\<open>a.reshape(shp)\<close>: numpy raises ValueError when the number of elements differs from
  the product of the requested shape.
\<close>

definition reshape :: "'a ndarray \<Rightarrow> nat list \<Rightarrow> error + 'a ndarray" where
  "reshape a shp =
     (if prod_list shp = numel a then Inr \<lparr>shape = shp, buf = buf a\<rparr>
      else Inl (ValueError ''cannot reshape array''))"

text \<open>
  Broadcasting, as numpy and torch do it: the shapes are aligned at their last
  dimension; two dimensions are compatible when they are equal or one of them is 1.
  \<open>broadcast_rev\<close> works on the reversed shapes.
\<close>

fun broadcast_rev :: "nat list \<Rightarrow> nat list \<Rightarrow> nat list option" where
  "broadcast_rev [] ys = Some ys"
| "broadcast_rev (x # xs) [] = Some (x # xs)"
| "broadcast_rev (x # xs) (y # ys) =
     (if x = y \<or> y = 1 then map_option ((#) x) (broadcast_rev xs ys)
      else if x = 1 then map_option ((#) y) (broadcast_rev xs ys)
      else None)"

definition broadcast_shapes :: "nat list \<Rightarrow> nat list \<Rightarrow> nat list option" where
  "broadcast_shapes s t = map_option rev (broadcast_rev (rev s) (rev t))"

text \<open>
  \<open>chunk n k xs\<close> is the \<open>k\<close>-th block of \<open>n\<close> consecutive elements of \<open>xs\<close>.
  \<open>expand ss ts xs\<close> lays out, with shape \<open>ts\<close>, the buffer \<open>xs\<close> of an array of
  shape \<open>ss\<close> (of the same rank): a dimension of size 1 is repeated.
\<close>

definition chunk :: "nat \<Rightarrow> nat \<Rightarrow> 'a list \<Rightarrow> 'a list" where
  "chunk n k xs = take n (drop (k * n) xs)"

fun expand :: "nat list \<Rightarrow> nat list \<Rightarrow> 'a list \<Rightarrow> 'a list" where
  "expand (s # ss) (t # ts) xs =
     (if s = t then concat (map (\<lambda>k. expand ss ts (chunk (prod_list ss) k xs)) [0..<s])
      else concat (replicate t (expand ss ts xs)))"
| "expand ss ts xs = xs"

definition pad_shape :: "nat \<Rightarrow> nat list \<Rightarrow> nat list" where
  "pad_shape n s = replicate (n - length s) 1 @ s"

definition broadcast_to :: "'a ndarray \<Rightarrow> nat list \<Rightarrow> 'a list" where
  "broadcast_to a ts = expand (pad_shape (length ts) (shape a)) ts (buf a)"

text \<open>
  An elementwise binary operation with broadcasting. numpy raises ValueError and torch
  RuntimeError when the shapes are not compatible; the caller gives the exception.
\<close>

definition elementwise ::
  "error \<Rightarrow> ('a \<Rightarrow> 'b \<Rightarrow> 'c) \<Rightarrow> 'a ndarray \<Rightarrow> 'b ndarray \<Rightarrow> error + 'c ndarray" where
  "elementwise e f a b =
     (case broadcast_shapes (shape a) (shape b) of
        None \<Rightarrow> Inl e
      | Some ts \<Rightarrow> Inr \<lparr>shape = ts, buf = map2 f (broadcast_to a ts) (broadcast_to b ts)\<rparr>)"


section \<open>The parametrization of a search domain\<close>

text \<open>
  Python values that are stored in descriptor and keyword dictionaries.
\<close>

datatype pyval =
    PStr string
  | PInt int
  | PBool bool
  | PFloat real
  | PTensor tensor
  | PModule "tensor \<Rightarrow> error + tensor"
  | PDict "(string \<times> string) list"

type_synonym pydict = "string \<rightharpoonup> pyval"

datatype bounding_policy = Clipping | Resampling

text \<open>
  The recombination policy that the objectives install: a block-wise crossover along the
  given axes, whose block size is an integer drawn between the two bounds.
\<close>

record Crossover =
  axis :: "nat list"
  max_size_lower :: int
  max_size_upper :: int

record DomainDescriptor =
  dd_shape :: "nat list"
  init_value :: "real ndarray"
  sigma :: real
  lower :: real
  upper :: real
  bounding :: bounding_policy
  recombination :: "Crossover option"

text \<open>
  Modelled from the spec: the class \<^verbatim>\<open>ng.p.Array\<close> and its methods \<^verbatim>\<open>set_mutation\<close> and
  \<^verbatim>\<open>set_bounds\<close>, of the package \<^verbatim>\<open>nevergrad.parametrization\<close>, are not among the sources.
  The specification (4.1) gives them as one operation: "construct(shape, init_value,
  sigma, lower, upper, bounding_policy): builds a descriptor; fails with ConfigError if
  lower > upper or sigma \<le> 0 or init_value shape \<noteq> shape".
\<close>

definition DomainDescriptor_construct ::
  "nat list \<Rightarrow> real ndarray \<Rightarrow> real \<Rightarrow> real \<Rightarrow> real \<Rightarrow> bounding_policy \<Rightarrow> error + DomainDescriptor" where
  "DomainDescriptor_construct shp init_v sg lo up policy =
     (if lo > up \<or> sg \<le> 0 \<or> shape init_v \<noteq> shp then Inl ConfigError
      else Inr \<lparr>dd_shape = shp, init_value = init_v, sigma = sg, lower = lo, upper = up,
                bounding = policy, recombination = None\<rparr>)"

text \<open>
  Modelled from the spec: \<^verbatim>\<open>set_recombination\<close> of \<^verbatim>\<open>ng.p.Array\<close> is not among the sources.
  It records the recombination policy of the descriptor.
\<close>

definition set_recombination :: "Crossover \<Rightarrow> DomainDescriptor \<Rightarrow> DomainDescriptor" where
  "set_recombination c d = d\<lparr>recombination := Some c\<rparr>"

section \<open>The base class of the objectives\<close>

text \<open>
  What is outside the module: the decoded and resized picture
  \<^verbatim>\<open>headrgb_olivier.png\<close> as \<^verbatim>\<open>np.asarray\<close> returns it (or the exception of
  \<^verbatim>\<open>PIL.Image.open\<close>), the random draws of \<^verbatim>\<open>torch.rand\<close> and of the initial weights of
  \<^verbatim>\<open>nn.Linear\<close>, the pretrained network that \<^verbatim>\<open>resnet50(pretrained=True)\<close> returns (or
  the exception it raises), the criterion \<^verbatim>\<open>nn.CrossEntropyLoss()\<close> applied to the logits
  of one image and a label, the items that \<^verbatim>\<open>torchvision.datasets.ImageFolder\<close> reads
  from a folder (or its exception), the attribute \<^verbatim>\<open>DataLoader\<close> of \<^verbatim>\<open>torch.utils\<close> (the
  exception of the attribute lookup, or the function that orders the items into batches
  of one image), and the descriptors that the constructor of \<^verbatim>\<open>base.ExperimentFunction\<close>
  installs.
\<close>

record world =
  headrgb_olivier :: "error + 8 word ndarray"
  uniform :: "nat \<Rightarrow> real"
  linear_weight :: "nat \<Rightarrow> nat \<Rightarrow> real"
  linear_bias :: "nat \<Rightarrow> real"
  resnet50_pretrained :: "error + (tensor \<Rightarrow> error + tensor)"
  CrossEntropyLoss :: "tensor \<Rightarrow> int \<Rightarrow> error + real"
  ImageFolder :: "string \<Rightarrow> error + (tensor \<times> int) list"
  torch_utils_DataLoader :: "error + ((tensor \<times> int) list \<Rightarrow> (tensor \<times> int) list)"
  base_descriptors :: pydict

datatype initialization = By_constructor | By_with_tag

record ExperimentFunction =
  parametrization :: DomainDescriptor
  descriptors :: pydict
  initialization_func :: initialization
  initialization_kwargs :: "pydict option"

text \<open>
  Modelled from the spec: \<^verbatim>\<open>add_descriptors\<close> of \<^verbatim>\<open>base.ExperimentFunction\<close> is not among
  the sources. The instances are "tagged with {benchmark: name}": the keyword arguments
  are added to the descriptor dictionary, as \<^verbatim>\<open>self._descriptors.update\<close> does in
  \<^verbatim>\<open>Image.__init__\<close>.
\<close>

definition dict_update :: "pydict \<Rightarrow> (string \<times> pyval) list \<Rightarrow> pydict" where
  "dict_update d kvs = foldl (\<lambda>m (k, v). m(k \<mapsto> v)) d kvs"

section \<open>Image recovery\<close>

text \<open>
  \<^verbatim>\<open>a[:, :, :3]\<close>: the first three entries along the third axis. numpy raises IndexError
  when the array has fewer than three axes.
\<close>

definition slice_channels :: "'a ndarray \<Rightarrow> error + 'a ndarray" where
  "slice_channels a =
     (case shape a of
        h # w # c # rest \<Rightarrow>
          Inr \<lparr>shape = h # w # min c 3 # rest,
               buf = concat (map (\<lambda>k. take (3 * prod_list rest) (chunk (c * prod_list rest) k (buf a)))
                               [0..<h * w])\<rparr>
      | _ \<Rightarrow> Inl (IndexError ''too many indices for array''))"

record Image = ExperimentFunction +
  domain_shape :: "nat list"
  problem_name :: string
  index :: int
  data :: "8 word ndarray"

text \<open>
  \<^verbatim>\<open>Image.__init__\<close>. The picture is opened and resized by PIL, outside the module; the
  parametrization is built by \<^verbatim>\<open>ng.p.Array\<close>.
\<close>

definition Image_init :: "world \<Rightarrow> string \<Rightarrow> int \<Rightarrow> error + Image" where
  "Image_init w pn idx =
     (let dshape = [256, 256, 3] in
      if pn \<noteq> ''recovering'' then Inl AssertionError
      else if idx \<noteq> 0 then Inl AssertionError
      else case headrgb_olivier w of
        Inl e \<Rightarrow> Inl e
      | Inr img \<Rightarrow>
         (case slice_channels img of
            Inl e \<Rightarrow> Inl e
          | Inr d \<Rightarrow>
             (case DomainDescriptor_construct dshape (scale 128 (ones dshape)) 35 0 255.99 Clipping of
                Inl e \<Rightarrow> Inl e
              | Inr array \<Rightarrow>
                  Inr \<lparr>parametrization =
                         set_recombination
                           \<lparr>axis = [0, 1], max_size_lower = 1, max_size_upper = 200\<rparr> array,
                       descriptors =
                         dict_update (base_descriptors w)
                           [(''problem_name'', PStr pn), (''index'', PInt idx)],
                       initialization_func = By_constructor,
                       initialization_kwargs =
                         Some (dict_update Map.empty
                           [(''problem_name'', PStr pn), (''index'', PInt idx)]),
                       domain_shape = dshape, problem_name = pn, index = idx, data = d\<rparr>)))"

definition fabs :: "real ndarray \<Rightarrow> real ndarray" where
  "fabs a = \<lparr>shape = shape a, buf = map abs (buf a)\<rparr>"

definition np_sum :: "real ndarray \<Rightarrow> real" where
  "np_sum a = sum_list (buf a)"

text \<open>
  \<^verbatim>\<open>np.subtract(x, d)\<close> of a float array and an array of unsigned bytes: the bytes are
  converted to floats, the shapes are broadcast. Real numbers stand for the floats: the
  rounding of the 64-bit operations is not part of the model.
\<close>

definition subtract :: "real ndarray \<Rightarrow> 8 word ndarray \<Rightarrow> error + real ndarray" where
  "subtract x d =
     elementwise (ValueError ''operands could not be broadcast together'')
       (\<lambda>a b. a - real (unat b)) x d"

text \<open>\<^verbatim>\<open>Image._loss\<close>.\<close>

definition Image_loss :: "Image \<Rightarrow> real ndarray \<Rightarrow> error + real" where
  "Image_loss self x =
     (if problem_name self \<noteq> ''recovering'' then Inl AssertionError
      else case reshape (ravel x) (domain_shape self) of
        Inl e \<Rightarrow> Inl e
      | Inr x' \<Rightarrow>
          if shape x' \<noteq> domain_shape self then Inl AssertionError
          else if index self \<noteq> 0 then Inl AssertionError
          else (case subtract x' (data self) of
                  Inl e \<Rightarrow> Inl e
                | Inr diff \<Rightarrow> Inr (np_sum (fabs diff))))"

text \<open>
  A call of the objective, with the object made explicit: \<^verbatim>\<open>_loss\<close> assigns no attribute
  of \<^verbatim>\<open>self\<close>, rebinding only its local name \<^verbatim>\<open>x\<close>, so the object after the call is the
  object before it.
\<close>

definition Image_call :: "Image \<Rightarrow> real ndarray \<Rightarrow> (error + real) \<times> Image" where
  "Image_call self x = (Image_loss self x, self)"

text \<open>The stored target as a float array, and an array shifted by a constant.\<close>

definition astype_float :: "8 word ndarray \<Rightarrow> real ndarray" where
  "astype_float a = \<lparr>shape = shape a, buf = map (\<lambda>b. real (unat b)) (buf a)\<rparr>"

definition add_scalar :: "real ndarray \<Rightarrow> real \<Rightarrow> real ndarray" where
  "add_scalar a k = \<lparr>shape = shape a, buf = map (\<lambda>v. v + k) (buf a)\<rparr>"

text \<open>
  The picture that \<^verbatim>\<open>Image.__init__\<close> expects from the resize to 256 by 256: three axes,
  with at least the three colour channels.
\<close>

definition rgb_picture :: "'a ndarray \<Rightarrow> bool" where
  "rgb_picture img =
     (wf_array img \<and>
      (case shape img of [h, w, c] \<Rightarrow> h = 256 \<and> w = 256 \<and> 3 \<le> c | _ \<Rightarrow> False))"

section \<open>The classifiers\<close>

text \<open>\<^verbatim>\<open>Normalize\<close>: the mean and the standard deviation of each channel.\<close>

record Normalize =
  mean :: "real list"
  std :: "real list"

text \<open>\<^verbatim>\<open>v[None, :, None, None]\<close>: a vector as a tensor of shape (1, C, 1, 1).\<close>

definition per_channel :: "real list \<Rightarrow> tensor" where
  "per_channel v = \<lparr>shape = [1, length v, 1, 1], buf = v\<rparr>"

definition broadcast_error :: error where
  "broadcast_error = RuntimeError ''The size of tensor a must match the size of tensor b''"

definition Normalize_forward :: "Normalize \<Rightarrow> tensor \<Rightarrow> error + tensor" where
  "Normalize_forward self x =
     (case elementwise broadcast_error (-) x (per_channel (mean self)) of
        Inl e \<Rightarrow> Inl e
      | Inr centred \<Rightarrow> elementwise broadcast_error (/) centred (per_channel (std self)))"

record Resnet50 =
  norm_module :: Normalize
  resnet_model :: "tensor \<Rightarrow> error + tensor"

definition Resnet50_init :: "world \<Rightarrow> error + Resnet50" where
  "Resnet50_init w =
     (case resnet50_pretrained w of
        Inl e \<Rightarrow> Inl e
      | Inr m \<Rightarrow>
          Inr \<lparr>norm_module = \<lparr>mean = [0.485, 0.456, 0.406], std = [0.229, 0.224, 0.225]\<rparr>,
               resnet_model = m\<rparr>)"

definition Resnet50_forward :: "Resnet50 \<Rightarrow> tensor \<Rightarrow> error + tensor" where
  "Resnet50_forward self x =
     (case Normalize_forward (norm_module self) x of
        Inl e \<Rightarrow> Inl e
      | Inr y \<Rightarrow> resnet_model self y)"

text \<open>
  \<^verbatim>\<open>nn.Linear(i, o)\<close>: a weight matrix of \<open>o\<close> rows and \<open>i\<close> columns and a bias of \<open>o\<close>
  entries, drawn at random. It maps the last axis of its input, which must have \<open>i\<close>
  entries.
\<close>

record Linear =
  in_features :: nat
  out_features :: nat
  weight :: "real list list"
  bias :: "real list"

definition Linear_init :: "world \<Rightarrow> nat \<Rightarrow> nat \<Rightarrow> Linear" where
  "Linear_init w i out =
     \<lparr>in_features = i, out_features = out,
      weight = map (\<lambda>j. map (linear_weight w j) [0..<i]) [0..<out],
      bias = map (linear_bias w) [0..<out]\<rparr>"

definition dot :: "real list \<Rightarrow> real list \<Rightarrow> real" where
  "dot xs ys = sum_list (map2 (*) xs ys)"

definition Linear_forward :: "Linear \<Rightarrow> tensor \<Rightarrow> error + tensor" where
  "Linear_forward self x =
     (case rev (shape x) of
        [] \<Rightarrow> Inl (RuntimeError ''both arguments to matmul need to be at least 1D'')
      | i # lead \<Rightarrow>
          if i \<noteq> in_features self
          then Inl (RuntimeError ''mat1 and mat2 shapes cannot be multiplied'')
          else Inr \<lparr>shape = rev lead @ [out_features self],
                    buf = concat (map (\<lambda>r. map2 (\<lambda>row b. dot (chunk i r (buf x)) row + b)
                                               (weight self) (bias self))
                                    [0..<prod_list lead])\<rparr>)"

record TestClassifier =
  linear_model :: Linear

definition TestClassifier_init :: "world \<Rightarrow> nat \<Rightarrow> TestClassifier" where
  "TestClassifier_init w image_size =
     \<lparr>linear_model = Linear_init w (image_size * image_size * 3) 10\<rparr>"

text \<open>
  \<^verbatim>\<open>x.view(x.shape[0], -1)\<close> needs a first axis, and cannot infer the second dimension
  of an empty tensor.
\<close>

definition TestClassifier_forward :: "TestClassifier \<Rightarrow> tensor \<Rightarrow> error + tensor" where
  "TestClassifier_forward self x =
     (case shape x of
        [] \<Rightarrow> Inl (IndexError ''tuple index out of range'')
      | n # rest \<Rightarrow>
          if numel x = 0 \<or> numel x mod n \<noteq> 0
          then Inl (RuntimeError ''shape is invalid for input size'')
          else Linear_forward (linear_model self) \<lparr>shape = [n, numel x div n], buf = buf x\<rparr>)"

section \<open>Adversarial attacks\<close>

text \<open>
  \<^verbatim>\<open>ImageAdversarial\<close>. The field \<open>image_t\<close> is the attribute \<^verbatim>\<open>image\<close>; \<open>label\<close> is
  the entry of the one-element integer tensor \<^verbatim>\<open>torch.Tensor([label]).long()\<close>, which
  is the argument itself for the class indices that a single-precision float holds
  exactly.
\<close>

record ImageAdversarial = ExperimentFunction +
  targeted :: bool
  epsilon :: real
  image_t :: tensor
  label :: int
  classifier :: "tensor \<Rightarrow> error + tensor"
  criterion :: "tensor \<Rightarrow> int \<Rightarrow> error + real"
  imsize :: nat

text \<open>
  \<^verbatim>\<open>ImageAdversarial.__init__\<close>. \<^verbatim>\<open>self.image.shape[1]\<close> raises IndexError for a tensor
  with fewer than two axes. The three calls on \<^verbatim>\<open>ng.p.Array\<close> (the initial value of
  zeros, \<^verbatim>\<open>set_mutation(sigma=epsilon / 10)\<close> and \<^verbatim>\<open>set_bounds(lower=-epsilon,
  upper=epsilon, method="clipping")\<close>) are the construction of the descriptor.
\<close>

definition ImageAdversarial_init ::
  "world \<Rightarrow> (tensor \<Rightarrow> error + tensor) \<Rightarrow> tensor \<Rightarrow> int \<Rightarrow> bool \<Rightarrow> real
     \<Rightarrow> error + ImageAdversarial" where
  "ImageAdversarial_init w cl img lbl tg eps =
     (case shape img of
        s0 # s1 # rest \<Rightarrow>
          (case DomainDescriptor_construct (shape img) (zeros (shape img))
                  (eps / 10) (- eps) eps Clipping of
             Inl e \<Rightarrow> Inl e
           | Inr array \<Rightarrow>
               Inr \<lparr>parametrization =
                      set_recombination
                        \<lparr>axis = [1, 2], max_size_lower = 1, max_size_upper = 200\<rparr> array,
                    descriptors =
                      dict_update (base_descriptors w)
                        [(''label'', PInt lbl), (''targeted'', PBool tg),
                         (''epsilon'', PFloat eps)],
                    initialization_func = By_constructor,
                    initialization_kwargs =
                      Some (dict_update Map.empty
                        [(''classifier'', PModule cl), (''image'', PTensor img),
                         (''label'', PInt lbl), (''targeted'', PBool tg),
                         (''epsilon'', PFloat eps)]),
                    targeted = tg, epsilon = eps, image_t = img, label = lbl,
                    classifier = cl, criterion = CrossEntropyLoss w, imsize = s1\<rparr>)
      | _ \<Rightarrow> Inl (IndexError ''tuple index out of range''))"

text \<open>\<^verbatim>\<open>ImageAdversarial._with_tag\<close>.\<close>

definition with_tag ::
  "world \<Rightarrow> (string \<times> string) list \<Rightarrow> (tensor \<Rightarrow> error + tensor) \<Rightarrow> tensor \<Rightarrow> int \<Rightarrow> bool
     \<Rightarrow> real \<Rightarrow> error + ImageAdversarial" where
  "with_tag w tags cl img lbl tg eps =
     (case ImageAdversarial_init w cl img lbl tg eps of
        Inl e \<Rightarrow> Inl e
      | Inr func \<Rightarrow>
          (let func1 = func\<lparr>descriptors :=
                              dict_update (descriptors func) (map (\<lambda>(k, v). (k, PStr v)) tags)\<rparr>;
               func2 = func1\<lparr>initialization_func := By_with_tag\<rparr>
           in case initialization_kwargs func2 of
                None \<Rightarrow> Inl AssertionError
              | Some kw \<Rightarrow>
                  Inr (func2\<lparr>initialization_kwargs := Some (kw(''tags'' \<mapsto> PDict tags))\<rparr>)))"

text \<open>\<^verbatim>\<open>torch.clamp(t, lo, hi)\<close> and \<^verbatim>\<open>t.view(shp)\<close>.\<close>

definition clamp :: "tensor \<Rightarrow> real \<Rightarrow> real \<Rightarrow> tensor" where
  "clamp t lo hi = \<lparr>shape = shape t, buf = map (\<lambda>v. min (max v lo) hi) (buf t)\<rparr>"

definition view_error :: error where
  "view_error = RuntimeError ''shape is invalid for input size''"

definition view :: "tensor \<Rightarrow> nat list \<Rightarrow> error + tensor" where
  "view t shp =
     (if prod_list shp = numel t then Inr \<lparr>shape = shp, buf = buf t\<rparr> else Inl view_error)"

text \<open>
  \<^verbatim>\<open>ImageAdversarial._loss\<close>. Real numbers stand for the floats of the tensors; the
  conversion \<^verbatim>\<open>torch.Tensor(x)\<close> keeps the shape and the elements. \<open>image_adv\<close> is the
  local variable of that name after line 148: the clamped sum, viewed with the shape
  \<^verbatim>\<open>(1, 3, self.imsize, self.imsize)\<close>.
\<close>

definition image_adv :: "ImageAdversarial \<Rightarrow> real ndarray \<Rightarrow> error + tensor" where
  "image_adv self x =
     (case elementwise broadcast_error (+) (image_t self) x of
        Inl e \<Rightarrow> Inl e
      | Inr perturbed \<Rightarrow> view (clamp perturbed 0 1) [1, 3, imsize self, imsize self])"

definition ImageAdversarial_loss :: "ImageAdversarial \<Rightarrow> real ndarray \<Rightarrow> error + real" where
  "ImageAdversarial_loss self x =
     (case image_adv self x of
        Inl e \<Rightarrow> Inl e
      | Inr adv \<Rightarrow>
          (case classifier self adv of
             Inl e \<Rightarrow> Inl e
           | Inr output_adv \<Rightarrow>
               (case criterion self output_adv (label self) of
                  Inl e \<Rightarrow> Inl e
                | Inr v \<Rightarrow> Inr (v * (if targeted self then 1 else - 1)))))"

text \<open>
  The evaluation of the adversarial objective in the words of the specification (4.3):
  "let perturbed = clamp(baseImage + point, 0, 1); run classifier.forward(perturbed) to
  obtain class logits; compute cross-entropy loss against label; return loss if targeted
  else -loss". The classifier receives a batch of one image.
\<close>

definition batch_one :: "tensor \<Rightarrow> tensor" where
  "batch_one t = \<lparr>shape = 1 # shape t, buf = buf t\<rparr>"



section \<open>The benchmark generator\<close>

text \<open>
  The names bound at module level in \<^verbatim>\<open>core.py\<close>: its imports and its classes. A name
  that is read in a function body and is neither local nor among them (nor a builtin)
  raises NameError.
\<close>

definition module_globals :: "string list" where
  "module_globals =
     [''Path'', ''np'', ''PIL'', ''nn'', ''torch'', ''torchvision'', ''resnet50'', ''tr'',
      ''ng'', ''tp'', ''base'', ''Image'', ''Normalize'', ''Resnet50'', ''TestClassifier'',
      ''ImageAdversarial'']"

definition load_global :: "string \<Rightarrow> error + string" where
  "load_global name =
     (if name \<in> set module_globals then Inr name else Inl (NameError name))"

text \<open>\<^verbatim>\<open>torch.rand(shp)\<close>: the random draws, in the order of the buffer.\<close>

definition torch_rand :: "world \<Rightarrow> nat list \<Rightarrow> tensor" where
  "torch_rand w shp = \<lparr>shape = shp, buf = map (uniform w) [0..<prod_list shp]\<rparr>"

text \<open>
  \<^verbatim>\<open>torch.max(t, axis=1)\<close> gives, for each position of the other axes, the index of the
  largest entry along the second axis (the first one, among equal entries).
\<close>

fun argmax_from :: "real \<Rightarrow> nat \<Rightarrow> nat \<Rightarrow> real list \<Rightarrow> nat" where
  "argmax_from best found k [] = found"
| "argmax_from best found k (v # vs) =
     (if best < v then argmax_from v k (Suc k) vs else argmax_from best found (Suc k) vs)"

definition argmax :: "real list \<Rightarrow> nat" where
  "argmax vs = (case vs of [] \<Rightarrow> 0 | v # rest \<Rightarrow> argmax_from v 0 1 rest)"

definition max_axis1 :: "tensor \<Rightarrow> error + nat ndarray" where
  "max_axis1 t =
     (case shape t of
        n # c # rest \<Rightarrow>
          if c = 0 then Inl (IndexError ''max(): Expected reduction dim 1 to have non-zero size'')
          else Inr \<lparr>shape = n # rest,
                    buf = concat (map (\<lambda>i. map (\<lambda>j. argmax (map (\<lambda>k. buf t ! ((i * c + k) * prod_list rest + j))
                                                                  [0..<c]))
                                                   [0..<prod_list rest])
                                      [0..<n])\<rparr>
      | _ \<Rightarrow> Inl (IndexError ''Dimension out of range''))"

text \<open>\<^verbatim>\<open>t[0]\<close>: the first entry along the first axis.\<close>

definition select0 :: "tensor \<Rightarrow> error + tensor" where
  "select0 t =
     (case shape t of
        [] \<Rightarrow> Inl (IndexError ''invalid index of a 0-dim tensor'')
      | n # rest \<Rightarrow>
          if n = 0 then Inl (IndexError ''index 0 is out of bounds for dimension 0 with size 0'')
          else Inr \<lparr>shape = rest, buf = take (prod_list rest) (buf t)\<rparr>)"

text \<open>
  The loop of the branch \<^verbatim>\<open>"imagenet"\<close> (lines 172 to 176). The last argument is the
  local variable \<^verbatim>\<open>func\<close>: unbound before the first assignment, and assigned again at
  each item that the classifier predicts correctly. The test \<^verbatim>\<open>if pred == target\<close> needs
  a comparison with exactly one element.
\<close>

fun imagenet_loop ::
  "world \<Rightarrow> (string \<times> string) list \<Rightarrow> (tensor \<Rightarrow> error + tensor) \<Rightarrow> (tensor \<times> int) list
     \<Rightarrow> ImageAdversarial option \<Rightarrow> error + ImageAdversarial option" where
  "imagenet_loop w tags cl [] func = Inr func"
| "imagenet_loop w tags cl ((d, target) # items) func =
     (case cl d of
        Inl e \<Rightarrow> Inl e
      | Inr out \<Rightarrow>
          (case max_axis1 out of
             Inl e \<Rightarrow> Inl e
           | Inr pred \<Rightarrow>
               (case buf pred of
                  [p] \<Rightarrow>
                    if int p = target
                    then (case select0 d of
                            Inl e \<Rightarrow> Inl e
                          | Inr img \<Rightarrow>
                              (case with_tag w tags cl img target False 0.05 of
                                 Inl e \<Rightarrow> Inl e
                               | Inr f \<Rightarrow> imagenet_loop w tags cl items (Some f)))
                    else imagenet_loop w tags cl items func
                | _ \<Rightarrow> Inl (RuntimeError ''Boolean value of Tensor is ambiguous''))))"

text \<open>
  \<^verbatim>\<open>make_benchmark_functions\<close> contains \<^verbatim>\<open>yield\<close>: it is a generator function. A call runs
  none of its body and returns a generator object, which holds the argument; the body
  runs when an element is asked for. The generator is either not started, suspended at
  the \<^verbatim>\<open>yield\<close> of line 163 or at the \<^verbatim>\<open>yield\<close> of line 177, or closed.
\<close>

datatype generator =
    Created string
  | At_yield_test
  | At_yield_imagenet
  | Closed

text \<open>What \<^verbatim>\<open>next(g)\<close> does: it returns the yielded object or raises.\<close>

datatype next_result =
    Yield ImageAdversarial
  | StopIteration
  | Raise error

definition make_benchmark_functions :: "string \<Rightarrow> error + generator" where
  "make_benchmark_functions name = Inr (Created name)"

text \<open>
  The body of \<^verbatim>\<open>make_benchmark_functions\<close>, run from its start to the first \<^verbatim>\<open>yield\<close>,
  \<^verbatim>\<open>raise\<close> or uncaught exception. The message of the ValueError is
  \<^verbatim>\<open>Unknown benchmark case "name"\<close>.
\<close>

definition unknown_benchmark :: "string \<Rightarrow> error" where
  "unknown_benchmark name =
     ValueError (''Unknown benchmark case '' @ [CHR 0x22] @ name @ [CHR 0x22])"

definition run_body :: "world \<Rightarrow> string \<Rightarrow> next_result \<times> generator" where
  "run_body w name =
     (let tags = [(''benchmark'', name)] in
      if name = ''test'' then
        (let imsize = 224;
             cl = TestClassifier_init w imsize;
             img = torch_rand w [3, imsize, imsize]
         in case with_tag w tags (TestClassifier_forward cl) img 0 False 0.05 of
              Inl e \<Rightarrow> (Raise e, Closed)
            | Inr func \<Rightarrow> (Yield func, At_yield_test))
      else if name = ''imagenet'' then
        (case Resnet50_init w of
           Inl e \<Rightarrow> (Raise e, Closed)
         | Inr cl \<Rightarrow>
            (case load_global ''data_folder'' of
               Inl e \<Rightarrow> (Raise e, Closed)
             | Inr folder \<Rightarrow>
                (case ImageFolder w folder of
                   Inl e \<Rightarrow> (Raise e, Closed)
                 | Inr ifolder \<Rightarrow>
                    (case torch_utils_DataLoader w of
                       Inl e \<Rightarrow> (Raise e, Closed)
                     | Inr loader \<Rightarrow>
                        (case imagenet_loop w tags (Resnet50_forward cl) (loader ifolder) None of
                           Inl e \<Rightarrow> (Raise e, Closed)
                         | Inr None \<Rightarrow> (Raise (UnboundLocalError ''func''), Closed)
                         | Inr (Some func) \<Rightarrow> (Yield func, At_yield_imagenet))))))
      else (Raise (unknown_benchmark name), Closed))"

text \<open>
  \<^verbatim>\<open>next(g)\<close>. After either \<^verbatim>\<open>yield\<close> the body has nothing left to run: the generator
  returns, and \<^verbatim>\<open>next\<close> raises StopIteration, as it does on a closed generator.
\<close>

definition gen_next :: "world \<Rightarrow> generator \<Rightarrow> next_result \<times> generator" where
  "gen_next w g =
     (case g of
        Created name \<Rightarrow> run_body w name
      | At_yield_test \<Rightarrow> (StopIteration, Closed)
      | At_yield_imagenet \<Rightarrow> (StopIteration, Closed)
      | Closed \<Rightarrow> (StopIteration, Closed))"

text \<open>
  \<^verbatim>\<open>list(g)\<close>, with the exception kept beside the instances that were yielded before it.
  \<open>pending\<close> bounds the number of elements a generator can still yield.
\<close>

fun pending :: "generator \<Rightarrow> nat" where
  "pending (Created name) = 2"
| "pending At_yield_test = 1"
| "pending At_yield_imagenet = 1"
| "pending Closed = 0"

function drain :: "world \<Rightarrow> generator \<Rightarrow> ImageAdversarial list \<times> error option" where
  "drain w g =
     (case gen_next w g of
        (Yield func, g') \<Rightarrow> (case drain w g' of (funcs, e) \<Rightarrow> (func # funcs, e))
      | (StopIteration, g') \<Rightarrow> ([], None)
      | (Raise e, g') \<Rightarrow> ([], Some e))"
  by pat_completeness auto
termination
proof (relation "measure (\<lambda>(w, g). pending g)")
  show "wf (measure (\<lambda>(w, g). pending g))" by simp
next
  fix w g r g' func
  assume "(r, g') = gen_next w g" and "r = Yield func"
  then have "gen_next w g = (Yield func, g')" by simp
  then have "pending g' < pending g"
    by (cases g) (auto simp: gen_next_def run_body_def Let_def split: if_splits sum.splits option.splits)
  then show "((w, g'), (w, g)) \<in> measure (\<lambda>(w, g). pending g)" by simp
qed

text \<open>The items of a batch that a classifier predicts correctly.\<close>

definition predicted_correctly :: "(tensor \<Rightarrow> error + tensor) \<Rightarrow> tensor \<times> int \<Rightarrow> bool" where
  "predicted_correctly cl item =
     (case cl (fst item) of
        Inl e \<Rightarrow> False
      | Inr out \<Rightarrow>
          (case max_axis1 out of
             Inl e \<Rightarrow> False
           | Inr pred \<Rightarrow> (case buf pred of [p] \<Rightarrow> int p = snd item | _ \<Rightarrow> False)))"

section \<open>Concrete worlds and objects\<close>

text \<open>
  A picture with four channels, every entry 7; the cross-entropy of one row of logits;
  a classifier that answers two equal logits.
\<close>

definition example_picture :: "8 word ndarray" where
  "example_picture = full [256, 256, 4] 7"

definition example_criterion :: "tensor \<Rightarrow> int \<Rightarrow> error + real" where
  "example_criterion out lbl =
     (if 0 \<le> lbl \<and> nat lbl < length (buf out)
      then Inr (ln (sum_list (map exp (buf out))) - buf out ! nat lbl)
      else Inl (IndexError ''Target is out of bounds''))"

definition example_classifier :: "tensor \<Rightarrow> error + tensor" where
  "example_classifier t = Inr \<lparr>shape = [1, 2], buf = [0, 0]\<rparr>"

definition example_world :: world where
  "example_world =
     \<lparr>headrgb_olivier = Inr example_picture, uniform = (\<lambda>k. 1 / 2),
      linear_weight = (\<lambda>j k. 0), linear_bias = (\<lambda>j. 0),
      resnet50_pretrained = Inl LoadError,
      CrossEntropyLoss = example_criterion, ImageFolder = (\<lambda>folder. Inr []),
      torch_utils_DataLoader = Inl (AttributeError ''DataLoader''),
      base_descriptors = Map.empty\<rparr>"

definition example_Image :: Image where
  "example_Image = projr (Image_init example_world ''recovering'' 0)"

text \<open>A square base image and one that is not square, and their objectives.\<close>

definition square_image :: tensor where
  "square_image = full [3, 2, 2] (1 / 2)"

definition flat_image :: tensor where
  "flat_image = full [3, 2, 1] (1 / 2)"

definition example_adversarial :: "tensor \<Rightarrow> bool \<Rightarrow> ImageAdversarial" where
  "example_adversarial img tg =
     projr (ImageAdversarial_init example_world example_classifier img 1 tg 0.05)"

text \<open>
  A world for the branch \<^verbatim>\<open>"imagenet"\<close>: a network that always answers class 1, a folder
  of two images of class 1, and a loader that gives each image its batch axis.
\<close>

definition class_one :: "tensor \<Rightarrow> error + tensor" where
  "class_one t = Inr \<lparr>shape = [1, 2], buf = [0, 1]\<rparr>"

definition two_items :: "(tensor \<times> int) list" where
  "two_items = [(full [3, 224, 224] (1 / 2), 1), (full [3, 224, 224] (1 / 4), 1)]"

definition batch_of_one :: "tensor \<times> int \<Rightarrow> tensor \<times> int" where
  "batch_of_one item = (batch_one (fst item), snd item)"

definition imagenet_world :: world where
  "imagenet_world =
     \<lparr>headrgb_olivier = Inr example_picture, uniform = (\<lambda>k. 1 / 2),
      linear_weight = (\<lambda>j k. 0), linear_bias = (\<lambda>j. 0),
      resnet50_pretrained = Inr class_one,
      CrossEntropyLoss = example_criterion, ImageFolder = (\<lambda>folder. Inr two_items),
      torch_utils_DataLoader = Inr (map batch_of_one),
      base_descriptors = Map.empty\<rparr>"

definition imagenet_classifier :: "tensor \<Rightarrow> error + tensor" where
  "imagenet_classifier = Resnet50_forward (projr (Resnet50_init imagenet_world))"

section \<open>Properties of arrays\<close>

text \<open>
  Blocks of a buffer, and broadcasting two arrays of the same shape: the operation is
  then elementwise on the buffers.
\<close>

lemma chunk_Suc: "chunk n (Suc k) xs = chunk n k (drop n xs)"
  by (simp add: chunk_def add.commute)

lemma chunk_0: "chunk n 0 xs = take n xs"
  by (simp add: chunk_def)

lemma concat_map_chunks:
  "concat (map (\<lambda>k. chunk n k xs) [0..<s]) = take (s * n) xs"
proof (induction s arbitrary: xs)
  case 0
  then show ?case by simp
next
  case (Suc s)
  have "concat (map (\<lambda>k. chunk n k xs) [0..<Suc s]) =
        chunk n 0 xs @ concat (map (\<lambda>k. chunk n (Suc k) xs) [0..<s])"
    by (simp only: upt_conv_Cons[of 0 "Suc s"] map_Suc_upt[symmetric] list.map concat.simps map_map o_def zero_less_Suc if_True)
  also have "\<dots> = take n xs @ take (s * n) (drop n xs)"
    by (simp add: chunk_Suc chunk_0 Suc.IH)
  also have "\<dots> = take (Suc s * n) xs"
    by (simp add: take_add)
  finally show ?case .
qed

lemma length_chunk: "k < s \<Longrightarrow> length xs = s * n \<Longrightarrow> length (chunk n k xs) = n"
proof -
  assume a: "k < s" "length xs = s * n"
  then have "Suc k \<le> s" by simp
  then have "Suc k * n \<le> s * n" by (rule mult_le_mono1)
  then have "n \<le> s * n - k * n" by simp
  then show ?thesis using a by (simp add: chunk_def)
qed

lemma expand_same: "length xs = prod_list ss \<Longrightarrow> expand ss ss xs = xs"
proof (induction ss arbitrary: xs)
  case Nil
  then show ?case by simp
next
  case (Cons s ss)
  have "map (\<lambda>k. expand ss ss (chunk (prod_list ss) k xs)) [0..<s] =
        map (\<lambda>k. chunk (prod_list ss) k xs) [0..<s]"
    using Cons.prems by (intro map_cong refl Cons.IH length_chunk[where s=s]) auto
  then have "expand (s # ss) (s # ss) xs = concat (map (\<lambda>k. chunk (prod_list ss) k xs) [0..<s])"
    by (simp only: expand.simps refl if_True)
  then show ?case using Cons.prems by (simp add: concat_map_chunks)
qed

lemma broadcast_rev_same: "broadcast_rev s s = Some s"
  by (induction s) auto

lemma broadcast_shapes_same: "broadcast_shapes s s = Some s"
  by (simp add: broadcast_shapes_def broadcast_rev_same)

lemma pad_shape_same: "pad_shape (length s) s = s"
  by (simp add: pad_shape_def)

lemma elementwise_same:
  "shape a = shape b \<Longrightarrow> wf_array a \<Longrightarrow> wf_array b \<Longrightarrow>
   elementwise e f a b = Inr \<lparr>shape = shape a, buf = map2 f (buf a) (buf b)\<rparr>"
  by (simp add: elementwise_def broadcast_shapes_same broadcast_to_def pad_shape_same
      expand_same wf_array_def)

section \<open>Properties of image recovery\<close>

lemma length_concat_const:
  "(\<And>k. k < n \<Longrightarrow> length (f k) = m) \<Longrightarrow> length (concat (map f [0..<n])) = n * m"
  by (induction n) simp_all

lemma slice_channels_rgb:
  assumes "wf_array a" and "shape a = [h, w, c]" and "3 \<le> c"
  shows "\<exists>d. slice_channels a = Inr d \<and> shape d = [h, w, 3] \<and> wf_array d"
proof -
  let ?d = "\<lparr>shape = [h, w, 3],
             buf = concat (map (\<lambda>k. take 3 (chunk c k (buf a))) [0..<h * w])\<rparr>"
  have len: "length (buf a) = (h * w) * c"
    using assms by (simp add: wf_array_def)
  have "length (concat (map (\<lambda>k. take 3 (chunk c k (buf a))) [0..<h * w])) = (h * w) * 3"
    using assms(3) by (intro length_concat_const) (simp add: length_chunk[OF _ len])
  then have "wf_array ?d" by (simp add: wf_array_def)
  moreover have "slice_channels a = Inr ?d"
    using assms by (simp add: slice_channels_def min_def)
  ultimately show ?thesis by auto
qed

lemma Image_init_props:
  assumes "Image_init w pn idx = Inr self" and "headrgb_olivier w = Inr img"
    and "rgb_picture img"
  shows "problem_name self = ''recovering''" and "index self = 0"
    and "domain_shape self = [256, 256, 3]" and "shape (data self) = [256, 256, 3]"
    and "wf_array (data self)"
proof -
  obtain c where c: "shape img = [256, 256, c]" "3 \<le> c" and wf: "wf_array img"
    using assms(3) by (auto simp: rgb_picture_def split: list.splits)
  obtain d where d: "slice_channels img = Inr d" "shape d = [256, 256, 3]" "wf_array d"
    using slice_channels_rgb[OF wf c] by blast
  have *: "pn = ''recovering'' \<and> idx = 0 \<and> data self = d \<and> problem_name self = pn
     \<and> index self = idx \<and> domain_shape self = [256, 256, 3]"
    using assms(1,2) d(1)
    by (auto simp: Image_init_def Let_def DomainDescriptor_construct_def split: if_splits sum.splits)
  show "problem_name self = ''recovering''" "index self = 0"
    "domain_shape self = [256, 256, 3]" "shape (data self) = [256, 256, 3]"
    "wf_array (data self)"
    using * d by simp_all
qed

lemma Image_init_ok:
  assumes "headrgb_olivier w = Inr img" and "rgb_picture img"
  shows "\<not> isl (Image_init w ''recovering'' 0)"
proof -
  obtain c where c: "shape img = [256, 256, c]" "3 \<le> c" and wf: "wf_array img"
    using assms(2) by (auto simp: rgb_picture_def split: list.splits)
  obtain d where d: "slice_channels img = Inr d"
    using slice_channels_rgb[OF wf c] by blast
  show ?thesis
    using assms(1) d
    by (simp add: Image_init_def Let_def DomainDescriptor_construct_def scale_def ones_def full_def)
qed

lemma map_abs_map2:
  "map abs (map2 f xs ys) = map2 (\<lambda>a b. \<bar>f a b\<bar>) xs ys"
  by auto

lemma Image_loss_value:
  assumes "problem_name self = ''recovering''" and "index self = 0"
    and "shape (data self) = domain_shape self" and "wf_array (data self)"
  shows "Image_loss self x =
     (if numel x = prod_list (domain_shape self)
      then Inr (sum_list (map2 (\<lambda>a b. \<bar>a - real (unat b)\<bar>) (buf x) (buf (data self))))
      else Inl (ValueError ''cannot reshape array''))"
proof (cases "numel x = prod_list (domain_shape self)")
  case False
  then show ?thesis
    using assms(1) by (simp add: Image_loss_def reshape_def ravel_def numel_def)
next
  case True
  let ?x = "\<lparr>shape = domain_shape self, buf = buf x\<rparr>"
  have r: "reshape (ravel x) (domain_shape self) = Inr ?x"
    using True by (simp add: reshape_def ravel_def numel_def)
  have wfx: "wf_array ?x" using True by (simp add: wf_array_def numel_def)
  have s: "subtract ?x (data self) =
      Inr \<lparr>shape = domain_shape self, buf = map2 (\<lambda>a b. a - real (unat b)) (buf x) (buf (data self))\<rparr>"
    unfolding subtract_def using elementwise_same[OF _ wfx assms(4)] assms(3) by simp
  show ?thesis
    using True assms(1,2) by (simp add: Image_loss_def r s np_sum_def fabs_def map_abs_map2 del: map_map)
qed

lemma sum_list_map2_nth:
  "length xs = n \<Longrightarrow> length ys = n \<Longrightarrow>
   sum_list (map2 f xs ys) = (\<Sum>i<n. f (xs ! i) (ys ! i))"
  by (simp add: sum_list_sum_nth atLeast0LessThan)

lemma shape_full: "shape (full shp v) = shp"
  by (simp add: full_def)

lemma chunk_replicate:
  "k < n \<Longrightarrow> chunk c k (replicate (n * c) v) = replicate c v"
proof -
  assume "k < n"
  then have "Suc k \<le> n" by simp
  then have "Suc k * c \<le> n * c" by (rule mult_le_mono1)
  then have "c \<le> n * c - k * c" by simp
  then show ?thesis by (simp add: chunk_def min_def)
qed

lemma concat_map_replicate:
  "concat (map (\<lambda>k. replicate m v) [0..<n]) = replicate (n * m) v"
  by (induction n) (simp_all add: replicate_add[symmetric] add.commute)

lemma slice_channels_full:
  assumes "3 \<le> c"
  shows "slice_channels (full [h, w, c] v) = Inr (full [h, w, 3] v)"
proof -
  have "map (\<lambda>k. take 3 (chunk c k (replicate (h * w * c) v))) [0..<h * w] =
        map (\<lambda>k. replicate 3 v) [0..<h * w]"
    using assms by (intro map_cong refl) (simp add: chunk_replicate min_def)
  then have "concat (map (\<lambda>k. take 3 (chunk c k (replicate (h * w * c) v))) [0..<h * w]) =
        replicate (h * w * 3) v"
    by (simp only: concat_map_replicate)
  then show ?thesis
    using assms by (simp add: slice_channels_def full_def min_def mult.assoc)
qed

lemma rgb_example_picture: "rgb_picture example_picture"
  by (simp add: rgb_picture_def example_picture_def full_def wf_array_def)

lemma example_Image_init: "Image_init example_world ''recovering'' 0 = Inr example_Image"
  using Image_init_ok[of example_world example_picture] rgb_example_picture
  by (cases "Image_init example_world ''recovering'' 0")
     (simp_all add: example_Image_def example_world_def)

lemma data_example_Image: "data example_Image = full [256, 256, 3] 7"
proof -
  have s: "slice_channels example_picture = Inr (full [256, 256, 3] 7)"
    by (simp add: example_picture_def slice_channels_full)
  show ?thesis
    by (simp add: example_Image_def Image_init_def example_world_def s
        DomainDescriptor_construct_def scale_def ones_def shape_full Let_def)
qed

text \<open>
  Claim C1. For an objective built by \<^verbatim>\<open>Image.__init__\<close> from a picture with at least
  three channels, \<^verbatim>\<open>Image._loss\<close> returns, for every point with 256 * 256 * 3 elements,
  the sum over all elements of the absolute difference between the point and the stored
  target; for a point with another number of elements the reshape raises ValueError
  (the ShapeError of the specification).
\<close>

theorem Image_loss_sum_abs_difference:
  assumes "Image_init w pn idx = Inr self" and "headrgb_olivier w = Inr img"
    and "rgb_picture img"
  shows "Image_loss self x =
     (if numel x = 256 * 256 * 3
      then Inr (\<Sum>i<256 * 256 * 3. \<bar>buf x ! i - real (unat (buf (data self) ! i))\<bar>)
      else Inl (ValueError ''cannot reshape array''))"
proof -
  note p = Image_init_props[OF assms]
  have len: "length (buf (data self)) = 256 * 256 * 3"
    using p(4,5) by (simp add: wf_array_def)
  have "Image_loss self x =
     (if numel x = 256 * 256 * 3
      then Inr (sum_list (map2 (\<lambda>a b. \<bar>a - real (unat b)\<bar>) (buf x) (buf (data self))))
      else Inl (ValueError ''cannot reshape array''))"
    using Image_loss_value[of self x] p by simp
  moreover have "numel x = 256 * 256 * 3 \<Longrightarrow>
      sum_list (map2 (\<lambda>a b. \<bar>a - real (unat b)\<bar>) (buf x) (buf (data self))) =
      (\<Sum>i<256 * 256 * 3. \<bar>buf x ! i - real (unat (buf (data self) ! i))\<bar>)"
    using len by (intro sum_list_map2_nth) (simp_all add: numel_def)
  ultimately show ?thesis by simp
qed

text \<open>
  The hypotheses of C1 at the example picture: a point of zeros against a target of
  sevens gives 7 * 196608, and a point with 256 * 256 * 2 elements is refused.
\<close>

theorem Image_loss_sum_abs_difference_witness:
  "Image_init example_world ''recovering'' 0 = Inr example_Image
   \<and> headrgb_olivier example_world = Inr example_picture
   \<and> rgb_picture example_picture
   \<and> Image_loss example_Image (zeros [256, 256, 3]) = Inr 1376256
   \<and> Image_loss example_Image (zeros [256, 256, 2]) = Inl (ValueError ''cannot reshape array'')"
proof -
  have h: "headrgb_olivier example_world = Inr example_picture"
    by (simp add: example_world_def)
  have "(\<Sum>i<196608. \<bar>replicate 196608 (0::real) ! i - real (unat (replicate 196608 (7::8 word) ! i))\<bar>)
      = (\<Sum>i<196608::nat. (7::real))"
    by (intro sum.cong refl) simp
  then show ?thesis
    using Image_loss_sum_abs_difference[OF example_Image_init h rgb_example_picture, of "zeros [256, 256, 3]"]
      Image_loss_sum_abs_difference[OF example_Image_init h rgb_example_picture, of "zeros [256, 256, 2]"]
      example_Image_init h rgb_example_picture
    by (simp add: data_example_Image zeros_def full_def numel_def)
qed

lemma sum_list_abs_self:
  fixes g :: "'b \<Rightarrow> real"
  shows "sum_list (map2 (\<lambda>a b. \<bar>a - g b\<bar>) (map g ys) ys) = 0"
  by (induction ys) simp_all

lemma sum_list_abs_shift:
  fixes g :: "'b \<Rightarrow> real"
  shows "sum_list (map2 (\<lambda>a b. \<bar>a - g b\<bar>) (map (\<lambda>v. v + 1) (map g ys)) ys)
     = real (length ys)"
  by (induction ys) simp_all

text \<open>
  Claim C8. \<^verbatim>\<open>Image._loss\<close> applied to the stored target returns exactly 0, and applied to
  the point equal to the target plus 1 at every coordinate returns exactly
  256 * 256 * 3 = 196608.
\<close>

theorem Image_loss_target:
  assumes "Image_init w pn idx = Inr self" and "headrgb_olivier w = Inr img"
    and "rgb_picture img"
  shows "Image_loss self (astype_float (data self)) = Inr 0
    \<and> Image_loss self (add_scalar (astype_float (data self)) 1) = Inr (256 * 256 * 3)"
proof -
  note p = Image_init_props[OF assms]
  have len: "length (buf (data self)) = 256 * 256 * 3"
    using p(4,5) by (simp add: wf_array_def)
  have "Image_loss self (astype_float (data self)) = Inr 0"
    using Image_loss_value[of self "astype_float (data self)"] p len
    by (simp add: numel_def astype_float_def sum_list_abs_self del: map_map)
  moreover have "Image_loss self (add_scalar (astype_float (data self)) 1) = Inr (256 * 256 * 3)"
    using Image_loss_value[of self "add_scalar (astype_float (data self)) 1"] p len
    by (simp add: numel_def astype_float_def add_scalar_def sum_list_abs_shift del: map_map)
  ultimately show ?thesis by simp
qed

text \<open>
  The hypotheses of C8 at the example picture, whose target is 7 everywhere: the point
  of sevens gives 0 and the point of eights, inside the bounds, gives 196608.
\<close>

theorem Image_loss_target_witness:
  "Image_init example_world ''recovering'' 0 = Inr example_Image
   \<and> headrgb_olivier example_world = Inr example_picture
   \<and> rgb_picture example_picture
   \<and> Image_loss example_Image (full [256, 256, 3] 7) = Inr 0
   \<and> Image_loss example_Image (full [256, 256, 3] 8) = Inr 196608"
proof -
  have h: "headrgb_olivier example_world = Inr example_picture"
    by (simp add: example_world_def)
  have a: "astype_float (data example_Image) = full [256, 256, 3] 7"
    by (simp add: data_example_Image astype_float_def full_def)
  have b: "add_scalar (full [256, 256, 3] 7) 1 = full [256, 256, 3] 8"
    by (simp add: add_scalar_def full_def)
  show ?thesis
    using Image_loss_target[OF example_Image_init h rgb_example_picture]
      example_Image_init h rgb_example_picture
    by (simp add: a b)
qed

text \<open>
  Claim C7. For every point that matches the domain shape, a call of the objective
  returns a scalar, and a second call with the same point, on the object as the first
  call left it, returns the identical scalar.
\<close>

theorem Image_call_deterministic:
  assumes "Image_init w pn idx = Inr self" and "headrgb_olivier w = Inr img"
    and "rgb_picture img" and "shape x = domain_shape self" and "wf_array x"
  shows "\<exists>v. fst (Image_call self x) = Inr v
    \<and> fst (Image_call (snd (Image_call self x)) x) = Inr v"
proof -
  note p = Image_init_props[OF assms(1-3)]
  have "numel x = prod_list (domain_shape self)"
    using assms(4,5) by (simp add: numel_def wf_array_def)
  then show ?thesis
    using Image_loss_value[of self x] p by (simp add: Image_call_def)
qed

text \<open>The hypotheses of C7 at the example picture and the point of zeros.\<close>

theorem Image_call_deterministic_witness:
  "Image_init example_world ''recovering'' 0 = Inr example_Image
   \<and> headrgb_olivier example_world = Inr example_picture
   \<and> rgb_picture example_picture
   \<and> shape (zeros [256, 256, 3]) = domain_shape example_Image
   \<and> wf_array (zeros [256, 256, 3])
   \<and> (\<exists>v. fst (Image_call example_Image (zeros [256, 256, 3])) = Inr v
      \<and> fst (Image_call (snd (Image_call example_Image (zeros [256, 256, 3])))
           (zeros [256, 256, 3])) = Inr v)"
proof -
  have h: "headrgb_olivier example_world = Inr example_picture"
    by (simp add: example_world_def)
  have s: "shape (zeros [256, 256, 3]) = domain_shape example_Image"
    using Image_init_props(3)[OF example_Image_init h rgb_example_picture]
    by (simp add: zeros_def shape_full)
  have w: "wf_array (zeros [256, 256, 3])"
    by (simp add: zeros_def full_def wf_array_def)
  show ?thesis
    using Image_call_deterministic[OF example_Image_init h rgb_example_picture s w]
      example_Image_init h rgb_example_picture s w
    by simp
qed

section \<open>Properties of the adversarial objective\<close>

lemma shape_zeros: "shape (zeros shp) = shp"
  by (simp add: zeros_def full_def)

lemma wf_full: "wf_array (full shp v)"
  by (simp add: full_def wf_array_def)

lemma ImageAdversarial_init_cases:
  "ImageAdversarial_init w cl img lbl tg eps =
     (if length (shape img) < 2 then Inl (IndexError ''tuple index out of range'')
      else if eps \<le> 0 then Inl ConfigError
      else Inr \<lparr>parametrization =
                  set_recombination
                    \<lparr>axis = [1, 2], max_size_lower = 1, max_size_upper = 200\<rparr>
                    \<lparr>dd_shape = shape img, init_value = zeros (shape img), sigma = eps / 10,
                      lower = - eps, upper = eps, bounding = Clipping, recombination = None\<rparr>,
                descriptors =
                  dict_update (base_descriptors w)
                    [(''label'', PInt lbl), (''targeted'', PBool tg), (''epsilon'', PFloat eps)],
                initialization_func = By_constructor,
                initialization_kwargs =
                  Some (dict_update Map.empty
                    [(''classifier'', PModule cl), (''image'', PTensor img),
                     (''label'', PInt lbl), (''targeted'', PBool tg),
                     (''epsilon'', PFloat eps)]),
                targeted = tg, epsilon = eps, image_t = img, label = lbl,
                classifier = cl, criterion = CrossEntropyLoss w,
                imsize = shape img ! 1\<rparr>)"
proof (cases "shape img")
  case Nil
  then show ?thesis by (simp add: ImageAdversarial_init_def)
next
  case (Cons s0 rest)
  note c = this
  show ?thesis
  proof (cases rest)
    case Nil
    then show ?thesis using c by (simp add: ImageAdversarial_init_def)
  next
    case (Cons s1 rest')
    then show ?thesis
      using c
      by (simp add: ImageAdversarial_init_def DomainDescriptor_construct_def shape_zeros)
  qed
qed


lemma ImageAdversarial_init_fields:
  assumes "ImageAdversarial_init w cl img lbl tg eps = Inr self"
  shows "image_t self = img" and "imsize self = shape img ! 1" and "classifier self = cl"
    and "criterion self = CrossEntropyLoss w" and "label self = lbl"
    and "targeted self = tg" and "epsilon self = eps" and "0 < eps"
    and "dd_shape (parametrization self) = shape img"
    and "descriptors self =
      dict_update (base_descriptors w)
        [(''label'', PInt lbl), (''targeted'', PBool tg), (''epsilon'', PFloat eps)]"
  using assms
  by (auto simp: ImageAdversarial_init_cases set_recombination_def split: if_splits)

text \<open>
  Claim C4. The construction of an adversarial objective on a base image with at least
  two axes requires a positive epsilon: for every epsilon that is not greater than 0 it
  fails with ConfigError, and every objective that is constructed has a positive
  epsilon and a perturbation domain of the shape of its base image, so that the two
  shapes cannot differ.
\<close>

theorem ImageAdversarial_init_requires_positive_epsilon:
  assumes "2 \<le> length (shape img)"
  shows "(eps \<le> 0 \<longrightarrow> ImageAdversarial_init w cl img lbl tg eps = Inl ConfigError)
    \<and> (\<forall>self. ImageAdversarial_init w cl img lbl tg eps = Inr self \<longrightarrow>
          0 < eps \<and> dd_shape (parametrization self) = shape (image_t self))"
proof (intro conjI impI allI)
  assume "eps \<le> 0"
  then show "ImageAdversarial_init w cl img lbl tg eps = Inl ConfigError"
    using assms by (simp add: ImageAdversarial_init_cases)
next
  fix self
  assume "ImageAdversarial_init w cl img lbl tg eps = Inr self"
  from ImageAdversarial_init_fields(1,8,9)[OF this]
  show "0 < eps" and "dd_shape (parametrization self) = shape (image_t self)"
    by simp_all
qed

lemma example_adversarial_init:
  "2 \<le> length (shape img) \<Longrightarrow>
   ImageAdversarial_init example_world example_classifier img 1 tg 0.05
     = Inr (example_adversarial img tg)"
  by (simp add: example_adversarial_def ImageAdversarial_init_cases)

lemma shape_square_image: "shape square_image = [3, 2, 2]"
  by (simp add: square_image_def full_def)

lemma shape_flat_image: "shape flat_image = [3, 2, 1]"
  by (simp add: flat_image_def full_def)

text \<open>
  The hypotheses of C4 at the square example image: epsilon 0 is refused, epsilon 0.05
  is accepted.
\<close>

theorem ImageAdversarial_init_requires_positive_epsilon_witness:
  "2 \<le> length (shape square_image)
   \<and> ImageAdversarial_init example_world example_classifier square_image 1 False 0 = Inl ConfigError
   \<and> ImageAdversarial_init example_world example_classifier square_image 1 False 0.05
       = Inr (example_adversarial square_image False)
   \<and> dd_shape (parametrization (example_adversarial square_image False)) = [3, 2, 2]"
proof -
  have h: "2 \<le> length (shape square_image)" by (simp add: shape_square_image)
  have i: "ImageAdversarial_init example_world example_classifier square_image 1 False 0.05
       = Inr (example_adversarial square_image False)"
    using example_adversarial_init[OF h] .
  have t: "image_t (example_adversarial square_image False) = square_image"
    using ImageAdversarial_init_fields(1)[OF i] .
  show ?thesis
    using ImageAdversarial_init_requires_positive_epsilon[OF h, of 0 example_world example_classifier 1 False]
      ImageAdversarial_init_requires_positive_epsilon[OF h, of "0.05" example_world example_classifier 1 False]
      h i t
    by (simp add: shape_square_image)
qed

lemma image_adv_value:
  assumes "ImageAdversarial_init w cl img lbl tg eps = Inr self"
    and "shape x = shape img" and "wf_array img" and "wf_array x"
  shows "image_adv self x =
     (if 3 * (imsize self * imsize self) = prod_list (shape img)
      then Inr \<lparr>shape = [1, 3, imsize self, imsize self],
                buf = buf (clamp \<lparr>shape = shape img, buf = map2 (+) (buf img) (buf x)\<rparr> 0 1)\<rparr>
      else Inl view_error)"
proof -
  have e: "elementwise broadcast_error (+) img x =
      Inr \<lparr>shape = shape img, buf = map2 (+) (buf img) (buf x)\<rparr>"
    using elementwise_same[of img x] assms(2-4) by simp
  have n: "length (buf img) = prod_list (shape img)" "length (buf x) = prod_list (shape img)"
    using assms(2-4) by (simp_all add: wf_array_def)
  show ?thesis
    using ImageAdversarial_init_fields(1)[OF assms(1)] n
    by (simp add: image_adv_def e view_def clamp_def numel_def)
qed





text \<open>
  Claim C10. \<^verbatim>\<open>ImageAdversarial._loss\<close> views the perturbed image with the shape
  (1, 3, s, s), where s is the second dimension of the base image. For a base image of
  shape (3, H, W) and a point of that shape, s is H; when H * W differs from s * s the
  view fails, and so does the evaluation; when the image is square the view succeeds.
\<close>

theorem ImageAdversarial_loss_square:
  assumes "ImageAdversarial_init w cl img lbl tg eps = Inr self"
    and "shape img = [3, H, W]" and "wf_array img"
    and "shape x = shape img" and "wf_array x"
  shows "imsize self = H
    \<and> (H * W \<noteq> H * H \<longrightarrow>
         image_adv self x = Inl view_error \<and> ImageAdversarial_loss self x = Inl view_error)
    \<and> (W = H \<longrightarrow>
         image_adv self x =
           Inr (batch_one (clamp \<lparr>shape = shape img, buf = map2 (+) (buf img) (buf x)\<rparr> 0 1)))"
proof -
  note f = ImageAdversarial_init_fields[OF assms(1)]
  have sz: "imsize self = H" using f(2) assms(2) by simp
  note v = image_adv_value[OF assms(1,4,3,5)]
  show ?thesis
    using v sz assms(2)
    by (auto simp: ImageAdversarial_loss_def batch_one_def clamp_def)
qed


text \<open>
  The hypotheses of C10 at an image of shape (3, 2, 1), where the view fails, and at an
  image of shape (3, 2, 2), where it succeeds.
\<close>

theorem ImageAdversarial_loss_square_witness:
  "ImageAdversarial_init example_world example_classifier flat_image 1 False 0.05
     = Inr (example_adversarial flat_image False)
   \<and> shape flat_image = [3, 2, 1] \<and> wf_array flat_image
   \<and> shape (zeros [3, 2, 1]) = shape flat_image \<and> wf_array (zeros [3, 2, 1])
   \<and> imsize (example_adversarial flat_image False) = 2
   \<and> image_adv (example_adversarial flat_image False) (zeros [3, 2, 1]) = Inl view_error
   \<and> ImageAdversarial_loss (example_adversarial flat_image False) (zeros [3, 2, 1])
       = Inl view_error
   \<and> ImageAdversarial_init example_world example_classifier square_image 1 False 0.05
     = Inr (example_adversarial square_image False)
   \<and> shape square_image = [3, 2, 2] \<and> wf_array square_image
   \<and> shape (zeros [3, 2, 2]) = shape square_image \<and> wf_array (zeros [3, 2, 2])
   \<and> image_adv (example_adversarial square_image False) (zeros [3, 2, 2])
       = Inr (full [1, 3, 2, 2] (1 / 2))"
proof -
  have hf: "2 \<le> length (shape flat_image)" by (simp add: shape_flat_image)
  have hs: "2 \<le> length (shape square_image)" by (simp add: shape_square_image)
  note jf = example_adversarial_init[OF hf, of False]
  note js = example_adversarial_init[OF hs, of False]
  have wf: "wf_array flat_image" by (simp add: flat_image_def wf_full)
  have ws: "wf_array square_image" by (simp add: square_image_def wf_full)
  have sf: "shape (zeros [3, 2, 1]) = shape flat_image"
    by (simp add: shape_zeros shape_flat_image)
  have ss: "shape (zeros [3, 2, 2]) = shape square_image"
    by (simp add: shape_zeros shape_square_image)
  have zf: "wf_array (zeros [3, 2, 1])" by (simp add: zeros_def wf_full)
  have zs: "wf_array (zeros [3, 2, 2])" by (simp add: zeros_def wf_full)
  have v: "batch_one (clamp \<lparr>shape = [3, 2, 2],
        buf = map2 (+) (buf square_image) (buf (zeros [3, 2, 2]))\<rparr> 0 1)
      = full [1, 3, 2, 2] (1 / 2)"
    by (simp add: batch_one_def clamp_def square_image_def zeros_def full_def)
  show ?thesis
    using ImageAdversarial_loss_square[OF jf shape_flat_image wf sf zf]
      ImageAdversarial_loss_square[OF js shape_square_image ws ss zs]
      jf js wf ws sf ss zf zs
    by (simp add: shape_flat_image shape_square_image v)
qed

section \<open>Properties of the benchmark generator\<close>

lemma drain_raise: "gen_next w g = (Raise e, g') \<Longrightarrow> drain w g = ([], Some e)"
  by (subst drain.simps) simp

lemma drain_stop: "gen_next w g = (StopIteration, g') \<Longrightarrow> drain w g = ([], None)"
  by (subst drain.simps) simp

lemma drain_yield:
  "gen_next w g = (Yield func, g') \<Longrightarrow>
   drain w g = (func # fst (drain w g'), snd (drain w g'))"
  by (subst drain.simps) (simp split: prod.splits)

lemma gen_next_unknown:
  assumes "name \<noteq> ''test''" and "name \<noteq> ''imagenet''"
  shows "gen_next w (Created name) = (Raise (unknown_benchmark name), Closed)"
  using assms by (simp add: gen_next_def run_body_def)

text \<open>
  Claim C5, as amended. For every name other than "test" and "imagenet", the call of
  \<^verbatim>\<open>make_benchmark_functions\<close> itself returns a generator without raising; the first
  request for an element raises the ValueError \<^verbatim>\<open>Unknown benchmark case\<close>, before any
  instance is yielded.
\<close>

theorem unknown_benchmark_raised_at_first_next:
  assumes "name \<noteq> ''test''" and "name \<noteq> ''imagenet''"
  shows "make_benchmark_functions name = Inr (Created name)
    \<and> gen_next w (Created name) = (Raise (unknown_benchmark name), Closed)
    \<and> drain w (Created name) = ([], Some (unknown_benchmark name))"
  using gen_next_unknown[OF assms, of w] drain_raise[OF gen_next_unknown[OF assms, of w]]
  by (simp add: make_benchmark_functions_def)

text \<open>
  The hypotheses of the amended C5 at the name "nonsense".
\<close>

theorem unknown_benchmark_raised_at_first_next_witness:
  "''nonsense'' \<noteq> ''test'' \<and> ''nonsense'' \<noteq> ''imagenet''
   \<and> make_benchmark_functions ''nonsense'' = Inr (Created ''nonsense'')
   \<and> gen_next example_world (Created ''nonsense'')
       = (Raise (ValueError (''Unknown benchmark case '' @ [CHR 0x22] @ ''nonsense'' @ [CHR 0x22])), Closed)
   \<and> drain example_world (Created ''nonsense'')
       = ([], Some (ValueError (''Unknown benchmark case '' @ [CHR 0x22] @ ''nonsense'' @ [CHR 0x22])))"
  using unknown_benchmark_raised_at_first_next[of "''nonsense''" example_world]
  by (simp add: unknown_benchmark_def)

text \<open>
  Claim C5 as stated fails: the call with the name "nonsense" raises nothing, it returns
  a generator that has not started.
\<close>

theorem make_benchmark_functions_call_returns:
  "make_benchmark_functions ''nonsense'' = Inr (Created ''nonsense'')
   \<and> make_benchmark_functions ''nonsense'' \<noteq> Inl (unknown_benchmark ''nonsense'')"
  by (simp add: make_benchmark_functions_def)

lemma gen_next_imagenet:
  "gen_next w (Created ''imagenet'') =
     (Raise (case resnet50_pretrained w of Inl e \<Rightarrow> e | Inr m \<Rightarrow> NameError ''data_folder''),
      Closed)"
  by (simp add: gen_next_def run_body_def Resnet50_init_def load_global_def module_globals_def
      split: sum.splits)

text \<open>
  Claim C9. The first request for an element of the generator for "imagenet" raises
  before any instance is yielded, in every world: the exception of \<^verbatim>\<open>Resnet50()\<close> when
  the pretrained network cannot be built, and otherwise the NameError of the global name
  \<^verbatim>\<open>data_folder\<close>, which the module never defines.
\<close>

theorem imagenet_raises_before_first_yield:
  "gen_next w (Created ''imagenet'') =
     (Raise (case resnet50_pretrained w of Inl e \<Rightarrow> e | Inr m \<Rightarrow> NameError ''data_folder''),
      Closed)
   \<and> drain w (Created ''imagenet'') =
     ([], Some (case resnet50_pretrained w of Inl e \<Rightarrow> e | Inr m \<Rightarrow> NameError ''data_folder''))"
  using gen_next_imagenet[of w] drain_raise[OF gen_next_imagenet[of w]] by simp

lemma shape_torch_rand: "shape (torch_rand w shp) = shp"
  by (simp add: torch_rand_def)

lemma dict_update_single: "dict_update d [(k, v)] k = Some v"
  by (simp add: dict_update_def)

lemma with_tag_fields:
  assumes "2 \<le> length (shape img)" and "0 < eps"
  shows "\<exists>func. with_tag w tags cl img lbl tg eps = Inr func
    \<and> classifier func = cl \<and> image_t func = img \<and> label func = lbl \<and> targeted func = tg
    \<and> epsilon func = eps \<and> initialization_func func = By_with_tag
    \<and> descriptors func =
        dict_update (dict_update (base_descriptors w)
            [(''label'', PInt lbl), (''targeted'', PBool tg), (''epsilon'', PFloat eps)])
          (map (\<lambda>(k, v). (k, PStr v)) tags)"
  using assms by (simp add: with_tag_def ImageAdversarial_init_cases Let_def)

text \<open>
  Claim C6. In every world the generator for "test" yields exactly one instance and is
  then exhausted; the instance is built from the linear test classifier and a random
  image, its label is 0, it is untargeted, and its descriptors hold the tag
  \<open>benchmark\<close> with the value "test".
\<close>

theorem test_benchmark_yields_one:
  "\<exists>func. make_benchmark_functions ''test'' = Inr (Created ''test'')
    \<and> gen_next w (Created ''test'') = (Yield func, At_yield_test)
    \<and> gen_next w At_yield_test = (StopIteration, Closed)
    \<and> drain w (Created ''test'') = ([func], None)
    \<and> classifier func = TestClassifier_forward (TestClassifier_init w 224)
    \<and> image_t func = torch_rand w [3, 224, 224]
    \<and> label func = 0 \<and> targeted func = False
    \<and> descriptors func ''benchmark'' = Some (PStr ''test'')"
proof -
  have s: "2 \<le> length (shape (torch_rand w [3, 224, 224]))"
    by (simp add: shape_torch_rand)
  obtain func where f:
    "with_tag w [(''benchmark'', ''test'')] (TestClassifier_forward (TestClassifier_init w 224))
       (torch_rand w [3, 224, 224]) 0 False 0.05 = Inr func"
    "classifier func = TestClassifier_forward (TestClassifier_init w 224)"
    "image_t func = torch_rand w [3, 224, 224]" "label func = 0" "targeted func = False"
    "descriptors func =
        dict_update (dict_update (base_descriptors w)
            [(''label'', PInt 0), (''targeted'', PBool False), (''epsilon'', PFloat 0.05)])
          (map (\<lambda>(k, v). (k, PStr v)) [(''benchmark'', ''test'')])"
    using with_tag_fields[OF s, of "0.05" w "[(''benchmark'', ''test'')]"
        "TestClassifier_forward (TestClassifier_init w 224)" 0 False]
    by auto
  have n: "gen_next w (Created ''test'') = (Yield func, At_yield_test)"
    using f(1) by (simp add: gen_next_def run_body_def Let_def)
  have n2: "gen_next w At_yield_test = (StopIteration, Closed)"
    by (simp add: gen_next_def)
  have d: "drain w (Created ''test'') = ([func], None)"
    using drain_yield[OF n] drain_stop[OF n2] by simp
  have t: "descriptors func ''benchmark'' = Some (PStr ''test'')"
    by (simp add: f(6) dict_update_single)
  show ?thesis
    using n n2 d f(2-5) t by (auto simp: make_benchmark_functions_def)
qed

lemma Resnet50_init_imagenet_world:
  "Resnet50_init imagenet_world =
     Inr \<lparr>norm_module = \<lparr>mean = [0.485, 0.456, 0.406], std = [0.229, 0.224, 0.225]\<rparr>,
          resnet_model = class_one\<rparr>"
  by (simp add: Resnet50_init_def imagenet_world_def)

lemma imagenet_classifier_batch:
  "shape t = [1, 3, 224, 224] \<Longrightarrow> imagenet_classifier t = Inr \<lparr>shape = [1, 2], buf = [0, 1]\<rparr>"
  by (simp add: imagenet_classifier_def Resnet50_init_imagenet_world Resnet50_forward_def
      Normalize_forward_def elementwise_def broadcast_shapes_def per_channel_def class_one_def)

lemma max_axis1_class_one:
  "max_axis1 \<lparr>shape = [1, 2], buf = [0, 1]\<rparr> = Inr \<lparr>shape = [1], buf = [1]\<rparr>"
  by (simp add: max_axis1_def argmax_def upt_rec)

lemma predicted_correctly_batch:
  "shape t = [3, 224, 224] \<Longrightarrow> predicted_correctly imagenet_classifier (batch_of_one (t, 1))"
  using max_axis1_class_one
  by (simp add: predicted_correctly_def batch_of_one_def batch_one_def
      imagenet_classifier_batch)

text \<open>
  Claim C3 fails on the code. In a world whose folder holds two images that the
  classifier predicts correctly, the generator for "imagenet" yields no instance: it
  ends with the NameError of \<^verbatim>\<open>data_folder\<close>.
\<close>

theorem imagenet_benchmark_yields_nothing:
  "ImageFolder imagenet_world ''data_folder'' = Inr two_items
   \<and> length (filter (predicted_correctly imagenet_classifier) (map batch_of_one two_items)) = 2
   \<and> drain imagenet_world (Created ''imagenet'') = ([], Some (NameError ''data_folder''))"
proof -
  have "gen_next imagenet_world (Created ''imagenet'') = (Raise (NameError ''data_folder''), Closed)"
    by (simp add: gen_next_imagenet imagenet_world_def)
  from drain_raise[OF this] show ?thesis
    by (simp add: two_items_def predicted_correctly_batch shape_full)
       (simp add: imagenet_world_def two_items_def)
qed


text \<open>
  Were the loop reached, it would still not yield one instance for each item: \<^verbatim>\<open>func\<close>
  is assigned again at each item and yielded once after the loop, so only the last
  correctly predicted item is kept.
\<close>

lemma select0_batch_one_full:
  "select0 (batch_one (full [3, 224, 224] v)) = Inr (full [3, 224, 224] v)"
  by (simp add: select0_def batch_one_def full_def)

lemma imagenet_loop_step:
  assumes "with_tag w tags imagenet_classifier (full [3, 224, 224] v) 1 False 0.05 = Inr f"
  shows "imagenet_loop w tags imagenet_classifier (batch_of_one (full [3, 224, 224] v, 1) # items) func
     = imagenet_loop w tags imagenet_classifier items (Some f)"
  using assms max_axis1_class_one select0_batch_one_full[of v]
  by (simp add: batch_of_one_def imagenet_classifier_batch batch_one_def shape_full)

lemma imagenet_loop_keeps_last:
  "\<exists>func. imagenet_loop imagenet_world [(''benchmark'', ''imagenet'')] imagenet_classifier
       (map batch_of_one two_items) None = Inr (Some func)
     \<and> image_t func = full [3, 224, 224] (1 / 4)"
proof -
  have s: "2 \<le> length (shape (full [3, 224, 224] v))" for v :: real
    by (simp add: shape_full)
  have e: "(0::real) < 0.05" by simp
  obtain f1 where f1: "with_tag imagenet_world [(''benchmark'', ''imagenet'')] imagenet_classifier
      (full [3, 224, 224] (1 / 2)) 1 False 0.05 = Inr f1"
    using with_tag_fields[OF s e] by blast
  obtain f2 where f2: "with_tag imagenet_world [(''benchmark'', ''imagenet'')] imagenet_classifier
      (full [3, 224, 224] (1 / 4)) 1 False 0.05 = Inr f2"
     and i2: "image_t f2 = full [3, 224, 224] (1 / 4)"
    using with_tag_fields[OF s e] by blast
  show ?thesis
    by (simp add: two_items_def imagenet_loop_step[OF f1] imagenet_loop_step[OF f2] i2)
qed

end
